theory Spec2Isabelle
  imports Main "HOL-Library.AList"
begin

section \<open>Data model (types.ts)\<close>

text \<open>
  The interfaces of \<^verbatim>\<open>types.ts\<close>. An optional field (\<^verbatim>\<open>sourceModule?: string\<close>) is an
  \<open>option\<close>; \<open>None\<close> is JavaScript's \<^verbatim>\<open>undefined\<close>.
\<close>

record ResolvedExport =
  originalModule :: string
  originalName :: string
  reExportChain :: "string list"

record ExportEntry =
  module :: string
  name :: string
  isReExport :: bool
  sourceModule :: "string option"
  sourceName :: "string option"

record Consumer =
  module :: string
  via :: "string list option"

record ExportDependencyInfo =
  module :: string
  name :: string
  consumerCount :: nat
  consumers :: "Consumer list"

text \<open>
  \<^verbatim>\<open>ExportRegistry = Map<string, ExportEntry>\<close>. A JavaScript \<^verbatim>\<open>Map\<close> is finite and
  iterates in insertion order; \<^verbatim>\<open>set\<close> on a key already present keeps the key's position.
  An association list read with \<open>map_of\<close> and written with \<open>AList.update\<close> does the same.
  \<^verbatim>\<open>ConsumerMap = Map<string, Consumer[]>\<close> is only read by key, so it is a map.
\<close>

type_synonym ExportRegistry = "(string \<times> ExportEntry) list"

type_synonym ConsumerMap = "string \<rightharpoonup> Consumer list"

section \<open>JavaScript string idioms\<close>

text \<open>The template literal \<^verbatim>\<open>`${modulePath}::${exportName}`\<close>.\<close>

definition mkKey :: "string \<Rightarrow> string \<Rightarrow> string" where
  "mkKey modulePath exportName = modulePath @ ''::'' @ exportName"

text \<open>
  Truthiness of a \<^verbatim>\<open>string | undefined\<close>: \<^verbatim>\<open>undefined\<close> and the empty string are falsy.
  \<open>truthy\<close> returns the string when it is truthy; \<open>orElse a b\<close> is \<^verbatim>\<open>a || b\<close>.
\<close>

definition truthy :: "string option \<Rightarrow> string option" where
  "truthy s = (case s of None \<Rightarrow> None | Some t \<Rightarrow> if t = [] then None else Some t)"

definition orElse :: "string option \<Rightarrow> string \<Rightarrow> string" where
  "orElse a b = (case truthy a of None \<Rightarrow> b | Some t \<Rightarrow> t)"

section \<open>Export resolution (exports.ts)\<close>

text \<open>
  \<open>keyUniverse\<close> is not part of the program: it is the finite set of keys a resolution
  started at \<open>(modulePath, exportName)\<close> can ever visit, and \<open>resolveMeasure\<close> counts the
  keys of it not yet visited: they measure the recursion.
  The parameter \<open>rel\<close> stands for \<^verbatim>\<open>path.relative(basePath, _)\<close> of Node's library.
\<close>

definition keyUniverse :: "(string \<Rightarrow> string) \<Rightarrow> string \<Rightarrow> string \<Rightarrow> ExportRegistry \<Rightarrow> string set" where
  "keyUniverse rel modulePath exportName registry =
     (\<lambda>(m, n). mkKey m n) `
       ((insert modulePath (rel ` {s. \<exists>e \<in> snd ` set registry. sourceModule e = Some s})) \<times>
        (insert exportName {s. \<exists>e \<in> snd ` set registry. sourceName e = Some s}))"

definition resolveMeasure ::
    "(string \<Rightarrow> string) \<times> string \<times> string \<times> ExportRegistry \<times> string set +
     (string \<Rightarrow> string) \<times> string \<times> string \<times> ExportRegistry \<times> string set \<Rightarrow> nat" where
  "resolveMeasure x =
     (case x of
        Inl (rel, m, n, registry, visited) \<Rightarrow> 2 * card (keyUniverse rel m n registry - visited)
      | Inr (rel, m, n, registry, visited) \<Rightarrow> 2 * card (keyUniverse rel m n registry - visited) + 1)"

definition prependModule :: "string \<Rightarrow> ResolvedExport \<Rightarrow> ResolvedExport" where
  "prependModule modulePath resolved = resolved\<lparr>reExportChain := modulePath # reExportChain resolved\<rparr>"

text \<open>
  \<^verbatim>\<open>resolveExport\<close> and \<^verbatim>\<open>resolveFromStarExports\<close>, mutually recursive as in the source.
  \<open>visited\<close> is the \<^verbatim>\<open>Set<string>\<close> threaded through the calls; the source mutates it in
  place and never reads it after a call returns, so the model passes the enlarged set down.
  \<open>None\<close> is the \<^verbatim>\<open>undefined\<close> result.
\<close>

function resolveExport ::
    "(string \<Rightarrow> string) \<Rightarrow> string \<Rightarrow> string \<Rightarrow> ExportRegistry \<Rightarrow> string set \<Rightarrow> ResolvedExport option"
  and resolveFromStarExports ::
    "(string \<Rightarrow> string) \<Rightarrow> string \<Rightarrow> string \<Rightarrow> ExportRegistry \<Rightarrow> string set \<Rightarrow> ResolvedExport option"
where
  "resolveExport rel modulePath exportName registry visited =
     (let key = mkKey modulePath exportName in
      if key \<in> visited then None
      else
        (case map_of registry key of
           None \<Rightarrow> resolveFromStarExports rel modulePath exportName registry (insert key visited)
         | Some entry \<Rightarrow>
             if \<not> isReExport entry then
               Some \<lparr>originalModule = modulePath, originalName = exportName, reExportChain = []\<rparr>
             else
               (case truthy (sourceModule entry) of
                  None \<Rightarrow> None
                | Some src \<Rightarrow>
                    map_option (prependModule modulePath)
                      (resolveExport rel (rel src) (orElse (sourceName entry) exportName)
                         registry (insert key visited)))))"
| "resolveFromStarExports rel modulePath exportName registry visited =
     (case map_of registry (mkKey modulePath ''*'') of
        None \<Rightarrow> None
      | Some starEntry \<Rightarrow>
          (case truthy (sourceModule starEntry) of
             None \<Rightarrow> None
           | Some src \<Rightarrow>
               map_option (prependModule modulePath)
                 (resolveExport rel (rel src) exportName registry visited)))"
  by pat_completeness auto

section \<open>Consumer attribution (consumers.ts)\<close>

text \<open>
  \<^verbatim>\<open>recordConsumer\<close>. The \<^verbatim>\<open>files\<close> argument of the source is only handed on to
  \<^verbatim>\<open>resolveExport\<close>, which never reads it, so it is left out; \<^verbatim>\<open>basePath\<close> is only
  used in \<^verbatim>\<open>path.relative\<close>, which is \<open>rel\<close>. A top-level resolution starts from the
  default \<^verbatim>\<open>new Set()\<close>. The source mutates its \<^verbatim>\<open>consumers\<close> map (\<open>consumerMap\<close> here,
  since \<open>consumers\<close> is a field of the output row); the model returns the new map.
\<close>

definition recordConsumer ::
    "(string \<Rightarrow> string) \<Rightarrow> string \<Rightarrow> string \<Rightarrow> string \<Rightarrow> ExportRegistry \<Rightarrow> ConsumerMap \<Rightarrow> ConsumerMap" where
  "recordConsumer rel importedModule exportName consumerModule registry consumerMap =
     (if importedModule = consumerModule then consumerMap
      else
        (case resolveExport rel importedModule exportName registry {} of
           None \<Rightarrow> consumerMap
         | Some resolved \<Rightarrow>
             (let key = mkKey (originalModule resolved) (originalName resolved);
                  consumers1 = (if consumerMap key = None then consumerMap(key \<mapsto> []) else consumerMap);
                  intermediaries = filter (\<lambda>m. m \<noteq> originalModule resolved) (reExportChain resolved);
                  consumer = \<lparr>Consumer.module = consumerModule,
                              via = (if reExportChain resolved \<noteq> [] \<and> intermediaries \<noteq> []
                                     then Some intermediaries else None)\<rparr>
              in (case consumers1 key of
                    None \<Rightarrow> consumers1
                  | Some recorded \<Rightarrow> consumers1(key \<mapsto> recorded @ [consumer])))))"

section \<open>Aggregation (consumers.ts)\<close>

text \<open>
  \<^verbatim>\<open>Array.prototype.sort\<close> with a comparator, which is a parameter, since
  \<^verbatim>\<open>String.prototype.localeCompare\<close> belongs to the runtime. The sort is stable: each
  element, from the right, is inserted before the first element it does not compare
  greater than, so elements that compare equal keep their order. The properties proved
  below use only that the sort permutes its input.
\<close>

fun insertBy :: "('a \<Rightarrow> 'a \<Rightarrow> int) \<Rightarrow> 'a \<Rightarrow> 'a list \<Rightarrow> 'a list" where
  "insertBy cmp x [] = [x]"
| "insertBy cmp x (y # ys) = (if cmp x y \<le> 0 then x # y # ys else y # insertBy cmp x ys)"

definition array_sort :: "('a \<Rightarrow> 'a \<Rightarrow> int) \<Rightarrow> 'a list \<Rightarrow> 'a list" where
  "array_sort cmp xs = foldr (insertBy cmp) xs []"

text \<open>
  The body of the loop of \<^verbatim>\<open>deduplicateConsumers\<close>; \<open>seen\<close> is the
  \<^verbatim>\<open>Map<string, Consumer>\<close>. \<^verbatim>\<open>consumer.via && !existing.via\<close> tests for \<^verbatim>\<open>undefined\<close>
  only: an array is truthy even when empty.
\<close>

definition dedupStep :: "(string \<times> Consumer) list \<Rightarrow> Consumer \<Rightarrow> (string \<times> Consumer) list" where
  "dedupStep seen consumer =
     (case map_of seen (Consumer.module consumer) of
        None \<Rightarrow> AList.update (Consumer.module consumer) consumer seen
      | Some existing \<Rightarrow>
          if via consumer \<noteq> None \<and> via existing = None
          then AList.update (Consumer.module consumer) consumer seen
          else seen)"

definition deduplicateConsumers :: "(string \<Rightarrow> string \<Rightarrow> int) \<Rightarrow> Consumer list \<Rightarrow> Consumer list" where
  "deduplicateConsumers localeCompare recorded =
     array_sort (\<lambda>a b. localeCompare (Consumer.module a) (Consumer.module b))
       (map snd (foldl dedupStep [] recorded))"

text \<open>
  The body of the loop of \<^verbatim>\<open>buildDependencyOutput\<close> over \<^verbatim>\<open>registry.values()\<close>; the
  state is \<open>(output, processedExports)\<close>.
\<close>

definition outputStep ::
    "(string \<Rightarrow> string \<Rightarrow> int) \<Rightarrow> (string \<Rightarrow> string) \<Rightarrow> ExportRegistry \<Rightarrow> ConsumerMap \<Rightarrow>
     ExportDependencyInfo list \<times> string set \<Rightarrow> ExportEntry \<Rightarrow> ExportDependencyInfo list \<times> string set" where
  "outputStep localeCompare rel registry consumerMap state entry =
     (let (output, processedExports) = state in
      if ExportEntry.name entry = ''*'' then state
      else
        (case resolveExport rel (ExportEntry.module entry) (ExportEntry.name entry) registry {} of
           None \<Rightarrow> state
         | Some resolved \<Rightarrow>
             (let originalKey = mkKey (originalModule resolved) (originalName resolved) in
              if originalKey \<in> processedExports then state
              else
                (let exportConsumers = (case consumerMap originalKey of None \<Rightarrow> [] | Some cs \<Rightarrow> cs);
                     uniqueConsumers = deduplicateConsumers localeCompare exportConsumers
                 in (output @ [\<lparr>ExportDependencyInfo.module = originalModule resolved,
                                 ExportDependencyInfo.name = originalName resolved,
                                 consumerCount = length uniqueConsumers,
                                 consumers = uniqueConsumers\<rparr>],
                     insert originalKey processedExports)))))"

definition compareRows :: "(string \<Rightarrow> string \<Rightarrow> int) \<Rightarrow> ExportDependencyInfo \<Rightarrow> ExportDependencyInfo \<Rightarrow> int" where
  "compareRows localeCompare a b =
     (let moduleCompare = localeCompare (ExportDependencyInfo.module a) (ExportDependencyInfo.module b) in
      if moduleCompare \<noteq> 0 then moduleCompare
      else localeCompare (ExportDependencyInfo.name a) (ExportDependencyInfo.name b))"

definition buildDependencyOutput ::
    "(string \<Rightarrow> string \<Rightarrow> int) \<Rightarrow> (string \<Rightarrow> string) \<Rightarrow> ExportRegistry \<Rightarrow> ConsumerMap \<Rightarrow>
     ExportDependencyInfo list" where
  "buildDependencyOutput localeCompare rel registry consumerMap =
     array_sort (compareRows localeCompare)
       (fst (foldl (outputStep localeCompare rel registry consumerMap) ([], {}) (map snd registry)))"

section \<open>Registry construction (exports.ts)\<close>

text \<open>
  The syntax facts the builder reads through ts-morph, one field per method it calls.
  \<open>NamedSpecifier\<close> is an \<^verbatim>\<open>ImportSpecifier\<close> or \<^verbatim>\<open>ExportSpecifier\<close>: for \<^verbatim>\<open>X as Y\<close>,
  \<open>getName\<close> is \<^verbatim>\<open>X\<close> and \<open>getAliasNode\<close> the text \<^verbatim>\<open>Y\<close>.
  \<open>getExportAssignments\<close> holds the length of that array, and \<open>getExportedDeclarations\<close>
  gives for each exported name the file paths of its declarations
  (\<^verbatim>\<open>decl.getSourceFile().getFilePath()\<close>). \<open>getDefaultImport\<close> and
  \<open>getNamespaceImport\<close> hold the text of the identifier node when there is one.
\<close>

record NamedSpecifier =
  getName :: string
  getAliasNode :: "string option"

record ImportDeclaration =
  getModuleSpecifierValue :: string
  getDefaultImport :: "string option"
  getNamedImports :: "NamedSpecifier list"
  getNamespaceImport :: "string option"

record ExportDeclaration =
  getModuleSpecifierValue :: "string option"
  isNamespaceExport :: bool
  getNamedExports :: "NamedSpecifier list"

record SourceFile =
  getFilePath :: string
  getImportDeclarations :: "ImportDeclaration list"
  getExportDeclarations :: "ExportDeclaration list"
  getExportAssignments :: nat
  getExportedDeclarations :: "(string \<times> string list) list"

text \<open>
  \<^verbatim>\<open>resolveModulePath\<close>. \<open>project\<close> is the set of file paths for which
  \<^verbatim>\<open>project.getSourceFile\<close> finds a file, and \<open>pathResolve file specifier\<close> stands for
  \<^verbatim>\<open>path.resolve(path.dirname(file), specifier)\<close>.
\<close>

definition startsWithDot :: "string \<Rightarrow> bool" where
  "startsWithDot specifier = (case specifier of [] \<Rightarrow> False | c # _ \<Rightarrow> c = CHR ''.'')"

definition extensions :: "string list" where
  "extensions = [''.ts'', ''.tsx'', ''/index.ts'', ''/index.tsx'']"

definition resolveModulePath ::
    "string set \<Rightarrow> (string \<Rightarrow> string \<Rightarrow> string) \<Rightarrow> SourceFile \<Rightarrow> string \<Rightarrow> string option" where
  "resolveModulePath project pathResolve sourceFile specifier =
     (if \<not> startsWithDot specifier then None
      else
        (let resolved = pathResolve (getFilePath sourceFile) specifier in
         case find (\<lambda>ext. resolved @ ext \<in> project) extensions of
           Some ext \<Rightarrow> Some (resolved @ ext)
         | None \<Rightarrow> if resolved \<in> project then Some resolved else None))"

text \<open>
  \<^verbatim>\<open>buildImportMap\<close>: local name to \<open>(sourceModule, sourceName)\<close>. The map is only read
  with \<^verbatim>\<open>get\<close>.
\<close>

type_synonym ImportMap = "string \<rightharpoonup> (string option \<times> string)"

definition importStep ::
    "string set \<Rightarrow> (string \<Rightarrow> string \<Rightarrow> string) \<Rightarrow> SourceFile \<Rightarrow> ImportMap \<Rightarrow> ImportDeclaration \<Rightarrow> ImportMap" where
  "importStep project pathResolve sourceFile importMap importDecl =
     (let resolvedPath = resolveModulePath project pathResolve sourceFile
                           (ImportDeclaration.getModuleSpecifierValue importDecl);
          map1 = (case getDefaultImport importDecl of
                    None \<Rightarrow> importMap
                  | Some defaultImport \<Rightarrow> importMap(defaultImport \<mapsto> (resolvedPath, ''default'')));
          map2 = foldl (\<lambda>m namedImport.
                          m(orElse (getAliasNode namedImport) (getName namedImport)
                              \<mapsto> (resolvedPath, getName namedImport)))
                   map1 (getNamedImports importDecl)
      in (case getNamespaceImport importDecl of
            None \<Rightarrow> map2
          | Some namespaceImport \<Rightarrow> map2(namespaceImport \<mapsto> (resolvedPath, ''*''))))"

definition buildImportMap ::
    "string set \<Rightarrow> (string \<Rightarrow> string \<Rightarrow> string) \<Rightarrow> SourceFile \<Rightarrow> ImportMap" where
  "buildImportMap project pathResolve sourceFile =
     foldl (importStep project pathResolve sourceFile) Map.empty (getImportDeclarations sourceFile)"

text \<open>The body of the loop over \<^verbatim>\<open>getNamedExports()\<close> in \<^verbatim>\<open>processExportDeclaration\<close>.\<close>

definition namedExportStep ::
    "string set \<Rightarrow> (string \<Rightarrow> string \<Rightarrow> string) \<Rightarrow> string option \<Rightarrow> string \<Rightarrow> SourceFile \<Rightarrow> ImportMap \<Rightarrow>
     ExportRegistry \<Rightarrow> NamedSpecifier \<Rightarrow> ExportRegistry" where
  "namedExportStep project pathResolve moduleSpecifier modulePath sourceFile importMap registry namedExport =
     (let exportedName = getName namedExport;
          localName = orElse (getAliasNode namedExport) exportedName;
          key = mkKey modulePath localName
      in case truthy moduleSpecifier of
           Some specifier \<Rightarrow>
             (let resolvedPath = resolveModulePath project pathResolve sourceFile specifier in
              AList.update key
                \<lparr>ExportEntry.module = modulePath, ExportEntry.name = localName, isReExport = True,
                 sourceModule = Some (orElse resolvedPath specifier),
                 sourceName = Some exportedName\<rparr> registry)
         | None \<Rightarrow>
             (case (case importMap exportedName of
                      None \<Rightarrow> None
                    | Some (importSource, importName) \<Rightarrow>
                        map_option (\<lambda>src. (src, importName)) (truthy importSource)) of
                Some (src, importName) \<Rightarrow>
                  AList.update key
                    \<lparr>ExportEntry.module = modulePath, ExportEntry.name = localName, isReExport = True,
                     sourceModule = Some src, sourceName = Some importName\<rparr> registry
              | None \<Rightarrow>
                  AList.update key
                    \<lparr>ExportEntry.module = modulePath, ExportEntry.name = localName, isReExport = False,
                     sourceModule = None, sourceName = None\<rparr> registry))"

definition processExportDeclaration ::
    "string set \<Rightarrow> (string \<Rightarrow> string \<Rightarrow> string) \<Rightarrow> ExportDeclaration \<Rightarrow> string \<Rightarrow> ExportRegistry \<Rightarrow>
     SourceFile \<Rightarrow> ImportMap \<Rightarrow> ExportRegistry" where
  "processExportDeclaration project pathResolve exportDecl modulePath registry sourceFile importMap =
     (let moduleSpecifier = ExportDeclaration.getModuleSpecifierValue exportDecl in
      case (if isNamespaceExport exportDecl then truthy moduleSpecifier else None) of
        Some specifier \<Rightarrow>
          (case truthy (resolveModulePath project pathResolve sourceFile specifier) of
             Some resolvedPath \<Rightarrow>
               AList.update (mkKey modulePath ''*'')
                 \<lparr>ExportEntry.module = modulePath, ExportEntry.name = ''*'', isReExport = True,
                  sourceModule = Some resolvedPath, sourceName = None\<rparr> registry
           | None \<Rightarrow> registry)
      | None \<Rightarrow>
          foldl (namedExportStep project pathResolve moduleSpecifier modulePath sourceFile importMap)
            registry (getNamedExports exportDecl))"

definition registerDefaultExport :: "string \<Rightarrow> ExportRegistry \<Rightarrow> ExportRegistry" where
  "registerDefaultExport modulePath registry =
     (let key = mkKey modulePath ''default'' in
      if map_of registry key = None then
        AList.update key
          \<lparr>ExportEntry.module = modulePath, ExportEntry.name = ''default'', isReExport = False,
           sourceModule = None, sourceName = None\<rparr> registry
      else registry)"

text \<open>
  The three phases of \<^verbatim>\<open>extractExportsFromFile\<close>: the loop over the export
  declarations, the default export, and the loop over \<^verbatim>\<open>getExportedDeclarations()\<close>.
\<close>

definition processExportDeclarations ::
    "string set \<Rightarrow> (string \<Rightarrow> string \<Rightarrow> string) \<Rightarrow> SourceFile \<Rightarrow> string \<Rightarrow> ExportRegistry \<Rightarrow> ExportRegistry" where
  "processExportDeclarations project pathResolve sourceFile modulePath registry =
     (let importMap = buildImportMap project pathResolve sourceFile in
      foldl (\<lambda>reg exportDecl.
               processExportDeclaration project pathResolve exportDecl modulePath reg sourceFile importMap)
        registry (getExportDeclarations sourceFile))"

definition inlineExportStep :: "SourceFile \<Rightarrow> string \<Rightarrow> ExportRegistry \<Rightarrow> string \<times> string list \<Rightarrow> ExportRegistry" where
  "inlineExportStep sourceFile modulePath registry exported =
     (let (exportedName, declarations) = exported;
          key = mkKey modulePath exportedName
      in if map_of registry key \<noteq> None then registry
         else if list_ex (\<lambda>declFilePath. declFilePath = getFilePath sourceFile) declarations then
           AList.update key
             \<lparr>ExportEntry.module = modulePath, ExportEntry.name = exportedName, isReExport = False,
              sourceModule = None, sourceName = None\<rparr> registry
         else registry)"

definition extractExportsFromFile ::
    "string set \<Rightarrow> (string \<Rightarrow> string \<Rightarrow> string) \<Rightarrow> SourceFile \<Rightarrow> string \<Rightarrow> ExportRegistry \<Rightarrow> ExportRegistry" where
  "extractExportsFromFile project pathResolve sourceFile modulePath registry =
     (let registry1 = processExportDeclarations project pathResolve sourceFile modulePath registry;
          registry2 = (if getExportAssignments sourceFile > 0
                       then registerDefaultExport modulePath registry1 else registry1)
      in foldl (inlineExportStep sourceFile modulePath) registry2 (getExportedDeclarations sourceFile))"

text \<open>
  \<^verbatim>\<open>buildExportRegistry\<close> over \<^verbatim>\<open>files: Map<string, SourceFile>\<close>, iterated in
  insertion order; \<open>rel filePath\<close> is \<^verbatim>\<open>path.relative(basePath, filePath)\<close>.
  \<^verbatim>\<open>project.getSourceFile\<close> reads the source-file cache of ts-morph, and the cache grows
  while the registry is built: \<^verbatim>\<open>getExportedDeclarations\<close>, the last step of
  \<^verbatim>\<open>extractExportsFromFile\<close>, runs the type checker, which loads the files the project
  refers to. \<open>loadedBy project sourceFile\<close> stands for the paths that this call adds to the
  cache \<open>project\<close>; the specifiers of the next file are resolved against the larger cache.
  \<open>fileStep\<close> is the body of the loop, on the state \<open>(registry, project)\<close>.
\<close>

definition fileStep ::
    "(string \<Rightarrow> string \<Rightarrow> string) \<Rightarrow> (string set \<Rightarrow> SourceFile \<Rightarrow> string set) \<Rightarrow> (string \<Rightarrow> string) \<Rightarrow>
     ExportRegistry \<times> string set \<Rightarrow> string \<times> SourceFile \<Rightarrow> ExportRegistry \<times> string set" where
  "fileStep pathResolve loadedBy rel state file =
     (let (registry, project) = state;
          (filePath, sourceFile) = file
      in (extractExportsFromFile project pathResolve sourceFile (rel filePath) registry,
          project \<union> loadedBy project sourceFile))"

definition buildExportRegistry ::
    "string set \<Rightarrow> (string \<Rightarrow> string \<Rightarrow> string) \<Rightarrow> (string set \<Rightarrow> SourceFile \<Rightarrow> string set) \<Rightarrow>
     (string \<Rightarrow> string) \<Rightarrow> (string \<times> SourceFile) list \<Rightarrow> ExportRegistry" where
  "buildExportRegistry project pathResolve loadedBy rel files =
     fst (foldl (fileStep pathResolve loadedBy rel) ([], project) files)"

section \<open>Example inputs\<close>

text \<open>
  \<open>dropBase\<close> is \<^verbatim>\<open>path.relative('/p', _)\<close> on the paths below \<^verbatim>\<open>/p\<close>, and \<open>codeCompare\<close>
  a comparator that orders strings by character code. The registries below are what
  \<open>buildExportRegistry\<close> holds for small projects in \<^verbatim>\<open>/p\<close>.
\<close>

definition dropBase :: "string \<Rightarrow> string" where
  "dropBase p = drop 3 p"

fun codeCompare :: "string \<Rightarrow> string \<Rightarrow> int" where
  "codeCompare [] [] = 0"
| "codeCompare [] (y # ys) = - 1"
| "codeCompare (x # xs) [] = 1"
| "codeCompare (x # xs) (y # ys) =
     (if (of_char x :: nat) < of_char y then - 1
      else if (of_char y :: nat) < of_char x then 1
      else codeCompare xs ys)"

definition reExportEntry :: "string \<Rightarrow> string \<Rightarrow> string \<Rightarrow> string option \<Rightarrow> ExportEntry" where
  "reExportEntry m n src srcName =
     \<lparr>ExportEntry.module = m, ExportEntry.name = n, isReExport = True,
      sourceModule = Some src, sourceName = srcName\<rparr>"

definition directEntry :: "string \<Rightarrow> string \<Rightarrow> ExportEntry" where
  "directEntry m n =
     \<lparr>ExportEntry.module = m, ExportEntry.name = n, isReExport = False,
      sourceModule = None, sourceName = None\<rparr>"

text \<open>
  \<^verbatim>\<open>a.ts: export const X; import { X as X2 } from './b'\<close> and
  \<^verbatim>\<open>b.ts: export { X } from './a'\<close>.
\<close>

definition barrelRegistry :: ExportRegistry where
  "barrelRegistry =
     [(''a.ts::X'', directEntry ''a.ts'' ''X''),
      (''b.ts::X'', reExportEntry ''b.ts'' ''X'' ''/p/a.ts'' (Some ''X''))]"

text \<open>\<^verbatim>\<open>a.ts: export { X } from './b'\<close> and \<^verbatim>\<open>b.ts: export { X } from './a'\<close>.\<close>

definition cyclicRegistry :: ExportRegistry where
  "cyclicRegistry =
     [(''a.ts::X'', reExportEntry ''a.ts'' ''X'' ''/p/b.ts'' (Some ''X'')),
      (''b.ts::X'', reExportEntry ''b.ts'' ''X'' ''/p/a.ts'' (Some ''X''))]"





text \<open>
  \<^verbatim>\<open>m.ts: export { foo } from './p'; export * from './q'\<close>, with \<^verbatim>\<open>foo\<close> declared in both
  \<^verbatim>\<open>p.ts\<close> and \<^verbatim>\<open>q.ts\<close>.
\<close>

definition wildcardRegistry :: ExportRegistry where
  "wildcardRegistry =
     [(''m.ts::foo'', reExportEntry ''m.ts'' ''foo'' ''/p/p.ts'' (Some ''foo'')),
      (''m.ts::*'', reExportEntry ''m.ts'' ''*'' ''/p/q.ts'' None),
      (''p.ts::foo'', directEntry ''p.ts'' ''foo''),
      (''q.ts::foo'', directEntry ''q.ts'' ''foo'')]"

text \<open>
  \<^verbatim>\<open>a.ts: export { X } from './b'; export const Y\<close> and
  \<^verbatim>\<open>b.ts: export { Y as X } from './a'\<close>.
\<close>

definition renameLoopRegistry :: ExportRegistry where
  "renameLoopRegistry =
     [(''a.ts::X'', reExportEntry ''a.ts'' ''X'' ''/p/b.ts'' (Some ''X'')),
      (''a.ts::Y'', directEntry ''a.ts'' ''Y''),
      (''b.ts::X'', reExportEntry ''b.ts'' ''X'' ''/p/a.ts'' (Some ''Y''))]"

text \<open>
  A consumer module \<^verbatim>\<open>c.ts\<close> that imports \<^verbatim>\<open>X\<close> from \<^verbatim>\<open>./a\<close> and again from the barrel
  \<^verbatim>\<open>./b\<close>, and \<^verbatim>\<open>d.ts\<close> that imports it from \<^verbatim>\<open>./a\<close>; and the output row expected for
  \<open>a.ts::X\<close>.
\<close>

definition twoImportsMap :: ConsumerMap where
  "twoImportsMap =
     recordConsumer dropBase ''a.ts'' ''X'' ''d.ts'' barrelRegistry
       (recordConsumer dropBase ''b.ts'' ''X'' ''c.ts'' barrelRegistry
          (recordConsumer dropBase ''a.ts'' ''X'' ''c.ts'' barrelRegistry Map.empty))"


definition twoImportsRow :: ExportDependencyInfo where
  "twoImportsRow =
     \<lparr>ExportDependencyInfo.module = ''a.ts'', ExportDependencyInfo.name = ''X'', consumerCount = 2,
      consumers = [\<lparr>Consumer.module = ''c.ts'', via = Some [''b.ts'']\<rparr>,
                   \<lparr>Consumer.module = ''d.ts'', via = None\<rparr>]\<rparr>"

text \<open>
  Source facts: \<open>resolveInP\<close> is \<^verbatim>\<open>path.resolve(path.dirname(file), specifier)\<close> for a file in
  \<^verbatim>\<open>/p\<close> and a specifier \<^verbatim>\<open>./name\<close>; \<open>noNewFiles\<close> is \<open>loadedBy\<close> for a project whose
  files are all in the cache from the start; \<open>reexporterFile\<close> is \<^verbatim>\<open>test-fixtures/reexporter.ts\<close>;
  \<open>renameLoopFiles\<close> and \<open>barrelFiles\<close> are the files of \<open>renameLoopRegistry\<close> and of
  \<open>barrelRegistry\<close>; the last three build an
  \<^verbatim>\<open>export * from\<close> declaration, an \<^verbatim>\<open>export { name } from\<close> declaration and a file that
  holds export declarations only.
\<close>

definition resolveInP :: "string \<Rightarrow> string \<Rightarrow> string" where
  "resolveInP file specifier = ''/p/'' @ drop 2 specifier"

definition noNewFiles :: "string set \<Rightarrow> SourceFile \<Rightarrow> string set" where
  "noNewFiles project sourceFile = {}"



definition loopProject :: "string set" where
  "loopProject = {''/p/a.ts'', ''/p/b.ts'', ''/p/c.ts''}"

definition renameLoopFiles :: "(string \<times> SourceFile) list" where
  "renameLoopFiles =
     [(''/p/a.ts'',
       \<lparr>getFilePath = ''/p/a.ts'', getImportDeclarations = [],
        getExportDeclarations =
          [\<lparr>ExportDeclaration.getModuleSpecifierValue = Some ''./b'', isNamespaceExport = False,
            getNamedExports = [\<lparr>getName = ''X'', getAliasNode = None\<rparr>]\<rparr>],
        getExportAssignments = 0,
        getExportedDeclarations = [(''X'', [''/p/a.ts'']), (''Y'', [''/p/a.ts''])]\<rparr>),
      (''/p/b.ts'',
       \<lparr>getFilePath = ''/p/b.ts'', getImportDeclarations = [],
        getExportDeclarations =
          [\<lparr>ExportDeclaration.getModuleSpecifierValue = Some ''./a'', isNamespaceExport = False,
            getNamedExports = [\<lparr>getName = ''Y'', getAliasNode = Some ''X''\<rparr>]\<rparr>],
        getExportAssignments = 0,
        getExportedDeclarations = [(''X'', [''/p/a.ts''])]\<rparr>)]"

definition barrelFiles :: "(string \<times> SourceFile) list" where
  "barrelFiles =
     [(''/p/a.ts'',
       \<lparr>getFilePath = ''/p/a.ts'',
        getImportDeclarations =
          [\<lparr>ImportDeclaration.getModuleSpecifierValue = ''./b'', getDefaultImport = None,
            getNamedImports = [\<lparr>getName = ''X'', getAliasNode = Some ''X2''\<rparr>],
            getNamespaceImport = None\<rparr>],
        getExportDeclarations = [],
        getExportAssignments = 0,
        getExportedDeclarations = [(''X'', [''/p/a.ts''])]\<rparr>),
      (''/p/b.ts'',
       \<lparr>getFilePath = ''/p/b.ts'', getImportDeclarations = [],
        getExportDeclarations =
          [\<lparr>ExportDeclaration.getModuleSpecifierValue = Some ''./a'', isNamespaceExport = False,
            getNamedExports = [\<lparr>getName = ''X'', getAliasNode = None\<rparr>]\<rparr>],
        getExportAssignments = 0,
        getExportedDeclarations = [(''X'', [''/p/a.ts''])]\<rparr>)]"

definition starDeclaration :: "string \<Rightarrow> ExportDeclaration" where
  "starDeclaration specifier =
     \<lparr>ExportDeclaration.getModuleSpecifierValue = Some specifier, isNamespaceExport = True,
      getNamedExports = []\<rparr>"

definition namedReExportDeclaration :: "string \<Rightarrow> string \<Rightarrow> ExportDeclaration" where
  "namedReExportDeclaration exportedName specifier =
     \<lparr>ExportDeclaration.getModuleSpecifierValue = Some specifier, isNamespaceExport = False,
      getNamedExports = [\<lparr>getName = exportedName, getAliasNode = None\<rparr>]\<rparr>"

definition exportsOnlyFile :: "string \<Rightarrow> ExportDeclaration list \<Rightarrow> SourceFile" where
  "exportsOnlyFile filePath exportDecls =
     \<lparr>getFilePath = filePath, getImportDeclarations = [], getExportDeclarations = exportDecls,
      getExportAssignments = 0, getExportedDeclarations = []\<rparr>"




section \<open>Invariants of the aggregation loops\<close>


definition rowOk :: "(string \<Rightarrow> string \<Rightarrow> int) \<Rightarrow> ConsumerMap \<Rightarrow> ExportDependencyInfo \<Rightarrow> bool" where
  "rowOk localeCompare consumerMap row \<longleftrightarrow>
     consumers row =
       deduplicateConsumers localeCompare
         (case consumerMap (mkKey (ExportDependencyInfo.module row) (ExportDependencyInfo.name row)) of
            None \<Rightarrow> [] | Some cs \<Rightarrow> cs) \<and>
     consumerCount row = length (consumers row)"

section \<open>Termination of the resolver\<close>

lemma finite_keyUniverse: "finite (keyUniverse rel m n registry)"
proof -
  have a: "finite {s. \<exists>e \<in> snd ` set registry. sourceModule e = Some s}"
    by (rule finite_subset [of _ "the ` sourceModule ` snd ` set registry"]) force+
  have b: "finite {s. \<exists>e \<in> snd ` set registry. sourceName e = Some s}"
    by (rule finite_subset [of _ "the ` sourceName ` snd ` set registry"]) force+
  show ?thesis unfolding keyUniverse_def using a b by simp
qed

lemma mkKey_in_keyUniverse: "mkKey m n \<in> keyUniverse rel m n registry"
  unfolding keyUniverse_def by auto

lemma truthy_Some: "truthy s = Some t \<Longrightarrow> s = Some t \<and> t \<noteq> []"
  by (auto simp: truthy_def split: option.splits if_splits)

lemma orElse_cases: "orElse a b = b \<or> a = Some (orElse a b)"
  by (auto simp: orElse_def truthy_def split: option.splits)

lemma keyUniverse_step:
  assumes "map_of registry k = Some e" and "truthy (sourceModule e) = Some src"
  shows "keyUniverse rel (rel src) (orElse (sourceName e) n) registry \<subseteq> keyUniverse rel m n registry"
    and "keyUniverse rel (rel src) n registry \<subseteq> keyUniverse rel m n registry"
proof -
  from assms(1) have mem: "e \<in> snd ` set registry"
    by (force dest: map_of_SomeD)
  from assms(2) have src: "sourceModule e = Some src" by (simp add: truthy_Some)
  have m: "rel src \<in> rel ` {s. \<exists>e \<in> snd ` set registry. sourceModule e = Some s}"
    using mem src by blast
  have n: "orElse (sourceName e) n \<in> insert n {s. \<exists>e \<in> snd ` set registry. sourceName e = Some s}"
    using orElse_cases [of "sourceName e" n] mem by auto
  show "keyUniverse rel (rel src) (orElse (sourceName e) n) registry \<subseteq> keyUniverse rel m n registry"
    unfolding keyUniverse_def using m n by (intro image_mono Sigma_mono) auto
  show "keyUniverse rel (rel src) n registry \<subseteq> keyUniverse rel m n registry"
    unfolding keyUniverse_def using m by (intro image_mono Sigma_mono) auto
qed

lemma card_diff_insert_less:
  assumes "finite U" and "U' \<subseteq> U" and "k \<in> U" and "k \<notin> V"
  shows "card (U' - insert k V) < card (U - V)"
proof (rule psubset_card_mono)
  show "finite (U - V)" using assms(1) by simp
  show "U' - insert k V \<subset> U - V" using assms(2-4) by blast
qed

text \<open>
  Every call of the resolver is in the domain of the recursion: each recursive call either
  adds a new key of the finite universe to \<open>visited\<close>, or is the one call of
  \<open>resolveFromStarExports\<close> back into \<open>resolveExport\<close>.
\<close>

lemma resolveExport_total: "All resolveExport_resolveFromStarExports_dom"
proof (relation "measure resolveMeasure", goal_cases)
  case 1
  show ?case by simp
next
  case (2 rel modulePath exportName registry visited key)
  have "card (keyUniverse rel modulePath exportName registry - insert key visited)
        < card (keyUniverse rel modulePath exportName registry - visited)"
    using 2 by (intro card_diff_insert_less finite_keyUniverse) (auto simp: mkKey_in_keyUniverse)
  then show ?case by (simp add: resolveMeasure_def)
next
  case (3 rel modulePath exportName registry visited key entry src)
  have "card (keyUniverse rel (rel src) (orElse (sourceName entry) exportName) registry - insert key visited)
        < card (keyUniverse rel modulePath exportName registry - visited)"
    using 3 by (intro card_diff_insert_less finite_keyUniverse keyUniverse_step(1) [of registry key])
      (auto simp: mkKey_in_keyUniverse)
  then show ?case by (simp add: resolveMeasure_def)
next
  case (4 rel modulePath exportName registry visited starEntry src)
  have "card (keyUniverse rel (rel src) exportName registry - visited)
        \<le> card (keyUniverse rel modulePath exportName registry - visited)"
    using 4 keyUniverse_step(2) [of registry _ starEntry src rel exportName modulePath]
    by (intro card_mono) (auto simp: finite_keyUniverse)
  then show ?case by (simp add: resolveMeasure_def)
qed

termination resolveExport
  by (rule resolveExport_total)


section \<open>Unfolding the resolver\<close>

declare resolveExport.simps [simp del] resolveFromStarExports.simps [simp del]

lemma resolveExport_explicit:
  assumes "map_of registry (mkKey m n) = Some e"
  shows "resolveExport rel m n registry visited =
    (if mkKey m n \<in> visited then None
     else if \<not> isReExport e then Some \<lparr>originalModule = m, originalName = n, reExportChain = []\<rparr>
     else (case truthy (sourceModule e) of
             None \<Rightarrow> None
           | Some src \<Rightarrow> map_option (prependModule m)
               (resolveExport rel (rel src) (orElse (sourceName e) n) registry (insert (mkKey m n) visited))))"
  using assms by (subst resolveExport.simps) (simp add: Let_def)

lemma resolveExport_absent:
  assumes "map_of registry (mkKey m n) = None"
  shows "resolveExport rel m n registry visited =
    (if mkKey m n \<in> visited then None
     else resolveFromStarExports rel m n registry (insert (mkKey m n) visited))"
  using assms by (subst resolveExport.simps) (simp add: Let_def)

lemma prependModule_fields [simp]:
  "reExportChain (prependModule m r) = m # reExportChain r"
  "originalModule (prependModule m r) = originalModule r"
  "originalName (prependModule m r) = originalName r"
  by (simp_all add: prependModule_def)

lemma resolveFromStarExports_chain:
  "resolveFromStarExports rel m n registry visited = Some r \<Longrightarrow> reExportChain r \<noteq> []"
  by (subst (asm) resolveFromStarExports.simps) (auto split: option.splits)

text \<open>A successful resolution ends at a registry entry that is not a re-export.\<close>

lemma resolveExport_original_direct:
  "resolveExport rel m n registry visited = Some r \<Longrightarrow>
     \<exists>e. map_of registry (mkKey (originalModule r) (originalName r)) = Some e \<and> \<not> isReExport e"
  "resolveFromStarExports rel m n registry visited = Some r \<Longrightarrow>
     \<exists>e. map_of registry (mkKey (originalModule r) (originalName r)) = Some e \<and> \<not> isReExport e"
proof (induction rel m n registry visited and rel m n registry visited arbitrary: r and r
       rule: resolveExport_resolveFromStarExports.induct)
  case (1 rel modulePath exportName registry visited)
  show ?case
  proof (cases "map_of registry (mkKey modulePath exportName)")
    case None
    with "1.prems" have v: "mkKey modulePath exportName \<notin> visited"
      and s: "resolveFromStarExports rel modulePath exportName registry
                (insert (mkKey modulePath exportName) visited) = Some r"
      by (auto simp: resolveExport_absent split: if_splits)
    from "1.IH"(1) [OF refl v None s] show ?thesis .
  next
    case (Some e)
    show ?thesis
    proof (cases "isReExport e")
      case False
      with Some "1.prems" show ?thesis
        by (auto simp: resolveExport_explicit split: if_splits)
    next
      case True
      with Some "1.prems" obtain src z where v: "mkKey modulePath exportName \<notin> visited"
        and t: "truthy (sourceModule e) = Some src"
        and z: "resolveExport rel (rel src) (orElse (sourceName e) exportName) registry
                  (insert (mkKey modulePath exportName) visited) = Some z"
        and r: "r = prependModule modulePath z"
        by (auto simp: resolveExport_explicit split: if_splits option.splits)
      from "1.IH"(2) [OF refl v Some _ t z] True r show ?thesis by simp
    qed
  qed
next
  case (2 rel modulePath exportName registry visited)
  from "2.prems" show ?case
    apply (subst (asm) resolveFromStarExports.simps)
    apply (auto split: option.splits dest: "2.IH")
    done
qed

lemmas example_defs =
  reExportEntry_def directEntry_def mkKey_def truthy_def orElse_def dropBase_def prependModule_def

section \<open>Properties of the resolver\<close>

text \<open>
  C9. Resolution is idempotent. A (module, name) whose registry entry is a direct
  declaration resolves to itself with an empty chain. For every successful resolution, from
  any visited set, the chain is empty exactly when the registry entry of the resolved
  (module, name) is a direct declaration; and resolving the result again returns it
  unchanged with an empty chain.
\<close>

theorem resolveExport_idempotent:
  "(map_of registry (mkKey m n) = Some e \<and> \<not> isReExport e \<longrightarrow>
      resolveExport rel m n registry {} =
        Some \<lparr>originalModule = m, originalName = n, reExportChain = []\<rparr>) \<and>
   (resolveExport rel m n registry visited = Some r \<longrightarrow>
      (reExportChain r = [] \<longleftrightarrow> (\<exists>e. map_of registry (mkKey m n) = Some e \<and> \<not> isReExport e)) \<and>
      resolveExport rel (originalModule r) (originalName r) registry {} =
        Some \<lparr>originalModule = originalModule r, originalName = originalName r, reExportChain = []\<rparr>)"
proof (intro conjI impI)
  assume "map_of registry (mkKey m n) = Some e \<and> \<not> isReExport e"
  then show "resolveExport rel m n registry {} =
        Some \<lparr>originalModule = m, originalName = n, reExportChain = []\<rparr>"
    by (simp add: resolveExport_explicit)
next
  assume r: "resolveExport rel m n registry visited = Some r"
  show "reExportChain r = [] \<longleftrightarrow> (\<exists>e. map_of registry (mkKey m n) = Some e \<and> \<not> isReExport e)"
  proof (cases "map_of registry (mkKey m n)")
    case None
    with r have "resolveFromStarExports rel m n registry (insert (mkKey m n) visited) = Some r"
      by (simp add: resolveExport_absent split: if_splits)
    then have "reExportChain r \<noteq> []" by (rule resolveFromStarExports_chain)
    with None show ?thesis by simp
  next
    case (Some e)
    with r show ?thesis
      by (auto simp: resolveExport_explicit split: if_splits option.splits)
  qed
next
  assume r: "resolveExport rel m n registry visited = Some r"
  from resolveExport_original_direct(1) [OF r]
  obtain e where "map_of registry (mkKey (originalModule r) (originalName r)) = Some e" "\<not> isReExport e"
    by blast
  then show "resolveExport rel (originalModule r) (originalName r) registry {} =
        Some \<lparr>originalModule = originalModule r, originalName = originalName r, reExportChain = []\<rparr>"
    by (simp add: resolveExport_explicit)
qed

theorem resolveExport_idempotent_witness:
  "map_of barrelRegistry (mkKey ''a.ts'' ''X'') = Some (directEntry ''a.ts'' ''X'') \<and>
   \<not> isReExport (directEntry ''a.ts'' ''X'') \<and>
   resolveExport dropBase ''a.ts'' ''X'' barrelRegistry {} =
     Some \<lparr>originalModule = ''a.ts'', originalName = ''X'', reExportChain = []\<rparr> \<and>
   resolveExport dropBase ''b.ts'' ''X'' barrelRegistry {} =
     Some \<lparr>originalModule = ''a.ts'', originalName = ''X'', reExportChain = [''b.ts'']\<rparr> \<and>
   map_of barrelRegistry (mkKey ''b.ts'' ''X'') = Some (reExportEntry ''b.ts'' ''X'' ''/p/a.ts'' (Some ''X''))"
proof -
  have e: "map_of barrelRegistry (mkKey ''a.ts'' ''X'') = Some (directEntry ''a.ts'' ''X'')"
    by (simp add: barrelRegistry_def mkKey_def)
  have d: "\<not> isReExport (directEntry ''a.ts'' ''X'')"
    by (simp add: directEntry_def)
  have b: "resolveExport dropBase ''b.ts'' ''X'' barrelRegistry {} =
     Some \<lparr>originalModule = ''a.ts'', originalName = ''X'', reExportChain = [''b.ts'']\<rparr>"
    by (simp add: resolveExport.simps barrelRegistry_def example_defs)
  from resolveExport_idempotent [where registry = barrelRegistry and m = "''a.ts''" and n = "''X''"
      and e = "directEntry ''a.ts'' ''X''" and rel = dropBase and visited = "{}"] e d
    resolveExport_idempotent [where registry = barrelRegistry and m = "''b.ts''" and n = "''X''"
      and rel = dropBase and visited = "{}"
      and r = "\<lparr>originalModule = ''a.ts'', originalName = ''X'', reExportChain = [''b.ts'']\<rparr>"] b
  show ?thesis by (simp add: barrelRegistry_def mkKey_def)
qed









text \<open>
  C5. Cycle safety. Every call of \<open>resolveExport\<close> lies in the domain of the recursion, that
  is, it terminates, on every registry and every visited set. A key already visited resolves
  to \<open>None\<close>; both recursive calls are made with the current key added to \<open>visited\<close>; and
  a registry in which \<open>A::X\<close> re-exports \<open>X\<close> from \<open>B\<close> and \<open>B::X\<close> re-exports \<open>X\<close> from \<open>A\<close>
  resolves \<open>(A, X)\<close> to \<open>None\<close>.
\<close>

theorem resolveExport_cycle_safe:
  "resolveExport_resolveFromStarExports_dom (Inl (rel, m, n, registry, visited)) \<and>
   (mkKey m n \<in> visited \<longrightarrow> resolveExport rel m n registry visited = None) \<and>
   (mkKey m n \<notin> visited \<and> map_of registry (mkKey m n) = None \<longrightarrow>
      resolveExport rel m n registry visited =
        resolveFromStarExports rel m n registry (insert (mkKey m n) visited)) \<and>
   (mkKey m n \<notin> visited \<and> map_of registry (mkKey m n) = Some e \<and> isReExport e \<and>
    truthy (sourceModule e) = Some src \<longrightarrow>
      resolveExport rel m n registry visited =
        map_option (prependModule m)
          (resolveExport rel (rel src) (orElse (sourceName e) n) registry (insert (mkKey m n) visited))) \<and>
   (map_of registry (mkKey A X) = Some eA \<and> isReExport eA \<and>
    truthy (sourceModule eA) = Some srcA \<and> rel srcA = B \<and> orElse (sourceName eA) X = X \<and>
    map_of registry (mkKey B X) = Some eB \<and> isReExport eB \<and>
    truthy (sourceModule eB) = Some srcB \<and> rel srcB = A \<and> orElse (sourceName eB) X = X \<longrightarrow>
      resolveExport rel A X registry {} = None)"
proof (intro conjI impI)
  show "resolveExport_resolveFromStarExports_dom (Inl (rel, m, n, registry, visited))"
    using resolveExport_total by blast
next
  assume "mkKey m n \<in> visited"
  then show "resolveExport rel m n registry visited = None"
    by (subst resolveExport.simps) (simp add: Let_def)
next
  assume "mkKey m n \<notin> visited \<and> map_of registry (mkKey m n) = None"
  then show "resolveExport rel m n registry visited =
        resolveFromStarExports rel m n registry (insert (mkKey m n) visited)"
    by (simp add: resolveExport_absent)
next
  assume "mkKey m n \<notin> visited \<and> map_of registry (mkKey m n) = Some e \<and> isReExport e \<and>
    truthy (sourceModule e) = Some src"
  then show "resolveExport rel m n registry visited =
        map_option (prependModule m)
          (resolveExport rel (rel src) (orElse (sourceName e) n) registry (insert (mkKey m n) visited))"
    by (simp add: resolveExport_explicit)
next
  assume h: "map_of registry (mkKey A X) = Some eA \<and> isReExport eA \<and>
    truthy (sourceModule eA) = Some srcA \<and> rel srcA = B \<and> orElse (sourceName eA) X = X \<and>
    map_of registry (mkKey B X) = Some eB \<and> isReExport eB \<and>
    truthy (sourceModule eB) = Some srcB \<and> rel srcB = A \<and> orElse (sourceName eB) X = X"
  have a2: "resolveExport rel A X registry (insert (mkKey B X) {mkKey A X}) = None"
    by (subst resolveExport.simps) (simp add: Let_def)
  have b: "resolveExport rel B X registry {mkKey A X} = None"
    using h a2 by (simp add: resolveExport_explicit [of registry B X eB])
  show "resolveExport rel A X registry {} = None"
    using h b by (simp add: resolveExport_explicit [of registry A X eA])
qed

theorem resolveExport_cycle_safe_witness:
  "resolveExport dropBase ''a.ts'' ''X'' cyclicRegistry {} = None \<and>
   resolveExport dropBase ''a.ts'' ''X'' cyclicRegistry {''a.ts::X''} = None \<and>
   resolveExport dropBase ''c.ts'' ''X'' cyclicRegistry {} =
     resolveFromStarExports dropBase ''c.ts'' ''X'' cyclicRegistry {''c.ts::X''} \<and>
   resolveExport dropBase ''a.ts'' ''X'' cyclicRegistry {} =
     map_option (prependModule ''a.ts'')
       (resolveExport dropBase ''b.ts'' ''X'' cyclicRegistry {''a.ts::X''}) \<and>
   resolveExport_resolveFromStarExports_dom (Inl (dropBase, ''a.ts'', ''X'', cyclicRegistry, {}))"
proof -
  have a: "map_of cyclicRegistry (mkKey ''a.ts'' ''X'') =
             Some (reExportEntry ''a.ts'' ''X'' ''/p/b.ts'' (Some ''X''))"
    and b: "map_of cyclicRegistry (mkKey ''b.ts'' ''X'') =
             Some (reExportEntry ''b.ts'' ''X'' ''/p/a.ts'' (Some ''X''))"
    and c: "map_of cyclicRegistry (mkKey ''c.ts'' ''X'') = None"
    by (simp_all add: cyclicRegistry_def mkKey_def)
  have ea: "isReExport (reExportEntry ''a.ts'' ''X'' ''/p/b.ts'' (Some ''X''))"
      "truthy (sourceModule (reExportEntry ''a.ts'' ''X'' ''/p/b.ts'' (Some ''X''))) = Some ''/p/b.ts''"
      "orElse (sourceName (reExportEntry ''a.ts'' ''X'' ''/p/b.ts'' (Some ''X''))) ''X'' = ''X''"
      "dropBase ''/p/b.ts'' = ''b.ts''"
    and eb: "isReExport (reExportEntry ''b.ts'' ''X'' ''/p/a.ts'' (Some ''X''))"
      "truthy (sourceModule (reExportEntry ''b.ts'' ''X'' ''/p/a.ts'' (Some ''X''))) = Some ''/p/a.ts''"
      "orElse (sourceName (reExportEntry ''b.ts'' ''X'' ''/p/a.ts'' (Some ''X''))) ''X'' = ''X''"
      "dropBase ''/p/a.ts'' = ''a.ts''"
    by (simp_all add: example_defs)
  have k: "mkKey ''a.ts'' ''X'' = ''a.ts::X''" "mkKey ''c.ts'' ''X'' = ''c.ts::X''"
    by (simp_all add: mkKey_def)
  note all = resolveExport_cycle_safe [where registry = cyclicRegistry and rel = dropBase
      and m = "''a.ts''" and n = "''X''" and visited = "{}"
      and e = "reExportEntry ''a.ts'' ''X'' ''/p/b.ts'' (Some ''X'')" and src = "''/p/b.ts''"
      and A = "''a.ts''" and X = "''X''" and eA = "reExportEntry ''a.ts'' ''X'' ''/p/b.ts'' (Some ''X'')"
      and srcA = "''/p/b.ts''" and B = "''b.ts''"
      and eB = "reExportEntry ''b.ts'' ''X'' ''/p/a.ts'' (Some ''X'')" and srcB = "''/p/a.ts''"]
  have guard: "resolveExport dropBase ''a.ts'' ''X'' cyclicRegistry {''a.ts::X''} = None"
    using resolveExport_cycle_safe [where registry = cyclicRegistry and rel = dropBase
      and m = "''a.ts''" and n = "''X''" and visited = "{''a.ts::X''}", THEN conjunct2, THEN conjunct1] k
    by simp
  have star: "resolveExport dropBase ''c.ts'' ''X'' cyclicRegistry {} =
     resolveFromStarExports dropBase ''c.ts'' ''X'' cyclicRegistry {''c.ts::X''}"
    using resolveExport_cycle_safe [where registry = cyclicRegistry and rel = dropBase
      and m = "''c.ts''" and n = "''X''" and visited = "{}",
      THEN conjunct2, THEN conjunct2, THEN conjunct1] c k
    by simp
  from all a b ea eb k guard star show ?thesis
    by auto
qed

text \<open>
  C6. Wildcard precedence. When the registry has an entry for \<open>M::n\<close>, the result of
  \<open>resolveExport\<close> is given by that entry alone, without a call of
  \<open>resolveFromStarExports\<close> for \<open>M\<close>. If the entry re-exports from \<open>P\<close>, which declares the
  name, the result is the declaration in \<open>P\<close> with chain \<open>[M]\<close>, whatever \<open>M::*\<close> points to.
\<close>

theorem resolveExport_explicit_first:
  "(map_of registry (mkKey M n) = Some e \<longrightarrow>
      resolveExport rel M n registry visited =
        (if mkKey M n \<in> visited then None
         else if \<not> isReExport e then
           Some \<lparr>originalModule = M, originalName = n, reExportChain = []\<rparr>
         else (case truthy (sourceModule e) of
                 None \<Rightarrow> None
               | Some src \<Rightarrow>
                   map_option (prependModule M)
                     (resolveExport rel (rel src) (orElse (sourceName e) n) registry
                        (insert (mkKey M n) visited))))) \<and>
   (map_of registry (mkKey M n) = Some e \<and> isReExport e \<and>
    truthy (sourceModule e) = Some srcP \<and> rel srcP = P \<and> orElse (sourceName e) n = n' \<and>
    map_of registry (mkKey P n') = Some d \<and> \<not> isReExport d \<longrightarrow>
      resolveExport rel M n registry {} =
        Some \<lparr>originalModule = P, originalName = n', reExportChain = [M]\<rparr>)"
proof (intro conjI impI)
  assume "map_of registry (mkKey M n) = Some e"
  then show "resolveExport rel M n registry visited =
        (if mkKey M n \<in> visited then None
         else if \<not> isReExport e then
           Some \<lparr>originalModule = M, originalName = n, reExportChain = []\<rparr>
         else (case truthy (sourceModule e) of
                 None \<Rightarrow> None
               | Some src \<Rightarrow>
                   map_option (prependModule M)
                     (resolveExport rel (rel src) (orElse (sourceName e) n) registry
                        (insert (mkKey M n) visited))))"
    by (rule resolveExport_explicit)
next
  assume h: "map_of registry (mkKey M n) = Some e \<and> isReExport e \<and>
    truthy (sourceModule e) = Some srcP \<and> rel srcP = P \<and> orElse (sourceName e) n = n' \<and>
    map_of registry (mkKey P n') = Some d \<and> \<not> isReExport d"
  then have ne: "mkKey P n' \<noteq> mkKey M n" by auto
  have p: "resolveExport rel P n' registry {mkKey M n} =
             Some \<lparr>originalModule = P, originalName = n', reExportChain = []\<rparr>"
    using h ne by (simp add: resolveExport_explicit [of registry P n' d])
  show "resolveExport rel M n registry {} =
        Some \<lparr>originalModule = P, originalName = n', reExportChain = [M]\<rparr>"
    using h p by (simp add: resolveExport_explicit [of registry M n e] prependModule_def)
qed


theorem resolveExport_explicit_first_witness:
  "map_of wildcardRegistry (mkKey ''m.ts'' ''*'') = Some (reExportEntry ''m.ts'' ''*'' ''/p/q.ts'' None) \<and>
   map_of wildcardRegistry (mkKey ''q.ts'' ''foo'') = Some (directEntry ''q.ts'' ''foo'') \<and>
   resolveExport dropBase ''m.ts'' ''foo'' wildcardRegistry {} =
     Some \<lparr>originalModule = ''p.ts'', originalName = ''foo'', reExportChain = [''m.ts'']\<rparr> \<and>
   resolveExport dropBase ''m.ts'' ''foo'' wildcardRegistry {''m.ts::foo''} = None"
  using resolveExport_explicit_first [where registry = wildcardRegistry and rel = dropBase
      and M = "''m.ts''" and n = "''foo''" and visited = "{''m.ts::foo''}"
      and e = "reExportEntry ''m.ts'' ''foo'' ''/p/p.ts'' (Some ''foo'')"
      and srcP = "''/p/p.ts''" and P = "''p.ts''" and n' = "''foo''" and d = "directEntry ''p.ts'' ''foo''"]
  by (simp add: wildcardRegistry_def example_defs)



section \<open>Properties of consumer attribution\<close>

text \<open>
  C1, as the code has it. For an import from another module that resolves to \<open>r\<close>,
  \<open>recordConsumer\<close> appends under the key of the original export one record for the
  consumer module, whose \<open>via\<close> is the chain of \<open>r\<close> with every occurrence of the original
  module removed, and absent when nothing is left. The recorded list never contains the
  original module, and it is the chain unchanged when the chain does not contain the
  original module.
\<close>

theorem recordConsumer_via:
  assumes "importedModule \<noteq> consumerModule"
      and "resolveExport rel importedModule exportName registry {} = Some r"
  shows "recordConsumer rel importedModule exportName consumerModule registry consumerMap
           (mkKey (originalModule r) (originalName r)) =
         Some ((case consumerMap (mkKey (originalModule r) (originalName r)) of
                  None \<Rightarrow> [] | Some recorded \<Rightarrow> recorded) @
               [\<lparr>Consumer.module = consumerModule,
                 via = (if filter (\<lambda>m. m \<noteq> originalModule r) (reExportChain r) = [] then None
                        else Some (filter (\<lambda>m. m \<noteq> originalModule r) (reExportChain r)))\<rparr>]) \<and>
         originalModule r \<notin> set (filter (\<lambda>m. m \<noteq> originalModule r) (reExportChain r)) \<and>
         (originalModule r \<notin> set (reExportChain r) \<longrightarrow>
            filter (\<lambda>m. m \<noteq> originalModule r) (reExportChain r) = reExportChain r)"
proof (intro conjI impI)
  have f: "reExportChain r = [] \<Longrightarrow> filter (\<lambda>m. m \<noteq> originalModule r) (reExportChain r) = []"
    by simp
  show "recordConsumer rel importedModule exportName consumerModule registry consumerMap
           (mkKey (originalModule r) (originalName r)) =
         Some ((case consumerMap (mkKey (originalModule r) (originalName r)) of
                  None \<Rightarrow> [] | Some recorded \<Rightarrow> recorded) @
               [\<lparr>Consumer.module = consumerModule,
                 via = (if filter (\<lambda>m. m \<noteq> originalModule r) (reExportChain r) = [] then None
                        else Some (filter (\<lambda>m. m \<noteq> originalModule r) (reExportChain r)))\<rparr>])"
    using assms f by (auto simp: recordConsumer_def Let_def split: option.splits)
  show "originalModule r \<notin> set (filter (\<lambda>m. m \<noteq> originalModule r) (reExportChain r))"
    by simp
  assume "originalModule r \<notin> set (reExportChain r)"
  then show "filter (\<lambda>m. m \<noteq> originalModule r) (reExportChain r) = reExportChain r"
    by (auto simp: filter_id_conv)
qed

theorem recordConsumer_via_witness:
  "''b.ts'' \<noteq> ''c.ts'' \<and>
   resolveExport dropBase ''b.ts'' ''X'' barrelRegistry {} =
     Some \<lparr>originalModule = ''a.ts'', originalName = ''X'', reExportChain = [''b.ts'']\<rparr> \<and>
   recordConsumer dropBase ''b.ts'' ''X'' ''c.ts'' barrelRegistry Map.empty ''a.ts::X'' =
     Some [\<lparr>Consumer.module = ''c.ts'', via = Some [''b.ts'']\<rparr>]"
proof -
  have r: "resolveExport dropBase ''b.ts'' ''X'' barrelRegistry {} =
     Some \<lparr>originalModule = ''a.ts'', originalName = ''X'', reExportChain = [''b.ts'']\<rparr>"
    by (simp add: resolveExport.simps barrelRegistry_def example_defs)
  have n: "''b.ts'' \<noteq> ''c.ts''" by simp
  from recordConsumer_via [OF n r, of Map.empty] r show ?thesis
    by (simp add: mkKey_def)
qed


text \<open>
  C1 as stated fails: the chain can contain the original module. With
  \<^verbatim>\<open>a.ts: export { X } from './b'; export const Y\<close> and \<^verbatim>\<open>b.ts: export { Y as X } from './a'\<close>,
  resolving \<open>(a.ts, X)\<close> ends at \<open>a.ts::Y\<close> with the chain \<open>[a.ts, b.ts]\<close>, and the recorded
  \<open>via\<close> is \<open>[b.ts]\<close>, not the chain.
\<close>

theorem recordConsumer_chain_counterexample:
  "resolveExport dropBase ''a.ts'' ''X'' renameLoopRegistry {} =
     Some \<lparr>originalModule = ''a.ts'', originalName = ''Y'', reExportChain = [''a.ts'', ''b.ts'']\<rparr> \<and>
   recordConsumer dropBase ''a.ts'' ''X'' ''c.ts'' renameLoopRegistry Map.empty ''a.ts::Y'' =
     Some [\<lparr>Consumer.module = ''c.ts'', via = Some [''b.ts'']\<rparr>]"
  by (simp add: recordConsumer_def resolveExport.simps renameLoopRegistry_def example_defs)


text \<open>
  C3, as the code has it. An import whose imported module is the consumer module itself
  never produces a record: \<open>recordConsumer\<close> returns the map unchanged.
\<close>

theorem recordConsumer_self_import:
  "recordConsumer rel consumerModule exportName consumerModule registry consumerMap = consumerMap"
  by (simp add: recordConsumer_def)

text \<open>
  C3 as stated fails for an import through a re-exporting module. With
  \<^verbatim>\<open>b.ts: export { X } from './a'\<close> and \<^verbatim>\<open>a.ts\<close> declaring \<^verbatim>\<open>X\<close> and importing it from
  \<^verbatim>\<open>'./b'\<close>, the module \<open>a.ts\<close> is recorded as a consumer of its own export \<open>a.ts::X\<close>.
\<close>

theorem recordConsumer_self_import_counterexample:
  "recordConsumer dropBase ''b.ts'' ''X'' ''a.ts'' barrelRegistry Map.empty ''a.ts::X'' =
     Some [\<lparr>Consumer.module = ''a.ts'', via = Some [''b.ts'']\<rparr>]"
  by (simp add: recordConsumer_def resolveExport.simps barrelRegistry_def example_defs)


section \<open>Properties of the aggregation\<close>

text \<open>The sort permutes its input.\<close>

lemma set_insertBy: "set (insertBy cmp x ys) = insert x (set ys)"
  by (induction ys) auto


lemma set_array_sort: "set (array_sort cmp xs) = set xs"
  unfolding array_sort_def by (induction xs) (auto simp: set_insertBy)








text \<open>Every row of the output carries the deduplicated consumers of its own key.\<close>

lemma outputStep_rows:
  assumes "\<forall>row \<in> set (fst state). rowOk localeCompare consumerMap row"
  shows "\<forall>row \<in> set (fst (outputStep localeCompare rel registry consumerMap state entry)).
           rowOk localeCompare consumerMap row"
  using assms
  by (cases state) (auto simp: outputStep_def Let_def rowOk_def split: option.splits)

lemma foldl_outputStep_rows:
  assumes "\<forall>row \<in> set (fst state). rowOk localeCompare consumerMap row"
  shows "\<forall>row \<in> set (fst (foldl (outputStep localeCompare rel registry consumerMap) state entries)).
           rowOk localeCompare consumerMap row"
  using assms
proof (induction entries arbitrary: state)
  case Nil
  then show ?case by simp
next
  case (Cons entry entries)
  show ?case
    unfolding foldl_Cons
    by (rule Cons.IH) (rule outputStep_rows [OF Cons.prems])
qed

lemma buildDependencyOutput_rows:
  "row \<in> set (buildDependencyOutput localeCompare rel registry consumerMap) \<Longrightarrow>
     rowOk localeCompare consumerMap row"
  using foldl_outputStep_rows [of "([], {})" localeCompare consumerMap rel registry "map snd registry"]
  by (simp add: buildDependencyOutput_def set_array_sort)




text \<open>
  C10. In every row of the output of \<open>buildDependencyOutput\<close>, \<open>consumerCount\<close> is the length
  of the row's \<open>consumers\<close>.
\<close>

theorem buildDependencyOutput_consumerCount:
  "\<forall>row \<in> set (buildDependencyOutput localeCompare rel registry consumerMap).
     consumerCount row = length (consumers row)"
  using buildDependencyOutput_rows by (auto simp: rowOk_def)

theorem buildDependencyOutput_consumerCount_witness:
  "buildDependencyOutput codeCompare dropBase barrelRegistry twoImportsMap = [twoImportsRow] \<and>
   consumerCount twoImportsRow = 2 \<and> length (consumers twoImportsRow) = 2"
proof -
  have m: "twoImportsMap ''a.ts::X'' =
     Some [\<lparr>Consumer.module = ''c.ts'', via = None\<rparr>,
           \<lparr>Consumer.module = ''c.ts'', via = Some [''b.ts'']\<rparr>,
           \<lparr>Consumer.module = ''d.ts'', via = None\<rparr>]"
    by (simp add: twoImportsMap_def recordConsumer_def resolveExport.simps barrelRegistry_def example_defs)
  have out: "buildDependencyOutput codeCompare dropBase barrelRegistry twoImportsMap = [twoImportsRow]"
    using m
    by (simp add: buildDependencyOutput_def outputStep_def deduplicateConsumers_def dedupStep_def
        array_sort_def compareRows_def resolveExport.simps barrelRegistry_def twoImportsRow_def example_defs)
  from buildDependencyOutput_consumerCount [of codeCompare dropBase barrelRegistry twoImportsMap] out
  have "consumerCount twoImportsRow = length (consumers twoImportsRow)" by simp
  then show ?thesis using out by (simp add: twoImportsRow_def)
qed



section \<open>Properties of registry construction\<close>

lemmas builder_defs =
  buildExportRegistry_def fileStep_def noNewFiles_def extractExportsFromFile_def
  processExportDeclarations_def
  processExportDeclaration_def namedExportStep_def inlineExportStep_def registerDefaultExport_def
  buildImportMap_def importStep_def resolveModulePath_def startsWithDot_def extensions_def
  resolveInP_def starDeclaration_def namedReExportDeclaration_def exportsOnlyFile_def Let_def

text \<open>The example registries are what the builder produces from their source files.\<close>

lemma barrelRegistry_built:
  "buildExportRegistry loopProject resolveInP noNewFiles dropBase barrelFiles = barrelRegistry"
  by code_simp

lemma renameLoopRegistry_built:
  "buildExportRegistry loopProject resolveInP noNewFiles dropBase renameLoopFiles = renameLoopRegistry"
  by code_simp

lemma mkKey_inject: "mkKey m a = mkKey m b \<longleftrightarrow> a = b"
  by (simp add: mkKey_def)
















lemma resolveModulePath_external:
  "\<not> startsWithDot specifier \<Longrightarrow> resolveModulePath project pathResolve sourceFile specifier = None"
  by (simp add: resolveModulePath_def)

lemma namedExportStep_unresolved:
  assumes "truthy spec = Some specifier"
      and "resolveModulePath project pathResolve sourceFile specifier = None"
  shows "namedExportStep project pathResolve spec modulePath sourceFile importMap registry ns =
           AList.update (mkKey modulePath (orElse (getAliasNode ns) (getName ns)))
             \<lparr>ExportEntry.module = modulePath,
              ExportEntry.name = orElse (getAliasNode ns) (getName ns), isReExport = True,
              sourceModule = Some specifier, sourceName = Some (getName ns)\<rparr> registry"
  using assms truthy_Some [OF assms(1)]
  by (simp add: namedExportStep_def Let_def orElse_def truthy_def)

lemma foldl_namedExportStep_unresolved:
  assumes "truthy spec = Some specifier"
      and "resolveModulePath project pathResolve sourceFile specifier = None"
      and "ns \<in> set named"
  shows "\<exists>e. map_of (foldl (namedExportStep project pathResolve spec modulePath sourceFile importMap)
                  registry named)
               (mkKey modulePath (orElse (getAliasNode ns) (getName ns))) = Some e \<and>
             ExportEntry.module e = modulePath \<and>
             ExportEntry.name e = orElse (getAliasNode ns) (getName ns) \<and>
             isReExport e \<and> sourceModule e = Some specifier"
  using assms(3)
proof (induction named rule: rev_induct)
  case Nil
  then show ?case by simp
next
  case (snoc x named)
  show ?case
  proof (cases "mkKey modulePath (orElse (getAliasNode x) (getName x)) =
                mkKey modulePath (orElse (getAliasNode ns) (getName ns))")
    case True
    then have "orElse (getAliasNode x) (getName x) = orElse (getAliasNode ns) (getName ns)"
      by (simp add: mkKey_inject)
    then show ?thesis
      by (simp add: namedExportStep_unresolved [OF assms(1,2)] update_conv')
  next
    case False
    with snoc.prems have "ns \<in> set named"
      by auto
    from snoc.IH [OF this] False show ?thesis
      by (simp add: namedExportStep_unresolved [OF assms(1,2)] update_conv')
  qed
qed

text \<open>
  C4, as the code has it. A specifier that does not start with a dot is never resolved.
  For an export declaration whose specifier is not resolved: a wildcard re-export leaves the
  registry unchanged, and a named re-export registers every name of the declaration
  under the module's key as a re-export whose \<open>sourceModule\<close> is the specifier as written.
\<close>

theorem processExportDeclaration_unresolved:
  assumes "truthy (ExportDeclaration.getModuleSpecifierValue exportDecl) = Some specifier"
  shows "(\<not> startsWithDot specifier \<longrightarrow>
            resolveModulePath project pathResolve sourceFile specifier = None) \<and>
         (resolveModulePath project pathResolve sourceFile specifier = None \<and>
          isNamespaceExport exportDecl \<longrightarrow>
            processExportDeclaration project pathResolve exportDecl modulePath registry sourceFile importMap
              = registry) \<and>
         (resolveModulePath project pathResolve sourceFile specifier = None \<and>
          \<not> isNamespaceExport exportDecl \<and> ns \<in> set (getNamedExports exportDecl) \<longrightarrow>
            (\<exists>e. map_of (processExportDeclaration project pathResolve exportDecl modulePath registry
                           sourceFile importMap)
                    (mkKey modulePath (orElse (getAliasNode ns) (getName ns))) = Some e \<and>
                 ExportEntry.module e = modulePath \<and>
                 ExportEntry.name e = orElse (getAliasNode ns) (getName ns) \<and>
                 isReExport e \<and> sourceModule e = Some specifier))"
proof (intro conjI impI)
  assume "\<not> startsWithDot specifier"
  then show "resolveModulePath project pathResolve sourceFile specifier = None"
    by (rule resolveModulePath_external)
next
  assume "resolveModulePath project pathResolve sourceFile specifier = None \<and>
          isNamespaceExport exportDecl"
  then show "processExportDeclaration project pathResolve exportDecl modulePath registry sourceFile importMap
              = registry"
    using assms by (simp add: processExportDeclaration_def Let_def truthy_def)
next
  assume h: "resolveModulePath project pathResolve sourceFile specifier = None \<and>
          \<not> isNamespaceExport exportDecl \<and> ns \<in> set (getNamedExports exportDecl)"
  then have u: "resolveModulePath project pathResolve sourceFile specifier = None"
    and n: "ns \<in> set (getNamedExports exportDecl)" by simp_all
  from h foldl_namedExportStep_unresolved [OF assms u n]
  show "\<exists>e. map_of (processExportDeclaration project pathResolve exportDecl modulePath registry
                           sourceFile importMap)
                    (mkKey modulePath (orElse (getAliasNode ns) (getName ns))) = Some e \<and>
                 ExportEntry.module e = modulePath \<and>
                 ExportEntry.name e = orElse (getAliasNode ns) (getName ns) \<and>
                 isReExport e \<and> sourceModule e = Some specifier"
    by (simp add: processExportDeclaration_def Let_def)
qed

theorem processExportDeclaration_unresolved_witness:
  "truthy (ExportDeclaration.getModuleSpecifierValue (starDeclaration ''lodash'')) = Some ''lodash'' \<and>
   resolveModulePath loopProject resolveInP (exportsOnlyFile ''/p/a.ts'' []) ''lodash'' = None \<and>
   processExportDeclaration loopProject resolveInP (starDeclaration ''lodash'') ''a.ts'' []
     (exportsOnlyFile ''/p/a.ts'' []) Map.empty = [] \<and>
   map_of (processExportDeclaration loopProject resolveInP (namedReExportDeclaration ''X'' ''lodash'')
             ''a.ts'' [] (exportsOnlyFile ''/p/a.ts'' []) Map.empty) ''a.ts::X'' =
     Some (reExportEntry ''a.ts'' ''X'' ''lodash'' (Some ''X''))"
proof -
  have s: "truthy (ExportDeclaration.getModuleSpecifierValue (starDeclaration ''lodash'')) = Some ''lodash''"
    and n: "truthy (ExportDeclaration.getModuleSpecifierValue (namedReExportDeclaration ''X'' ''lodash''))
              = Some ''lodash''"
    by (simp_all add: starDeclaration_def namedReExportDeclaration_def truthy_def)
  have d: "\<not> startsWithDot ''lodash''"
    by (simp add: startsWithDot_def)
  have e: "map_of (processExportDeclaration loopProject resolveInP (namedReExportDeclaration ''X'' ''lodash'')
             ''a.ts'' [] (exportsOnlyFile ''/p/a.ts'' []) Map.empty) ''a.ts::X'' =
     Some (reExportEntry ''a.ts'' ''X'' ''lodash'' (Some ''X''))"
    by (simp add: builder_defs loopProject_def example_defs)
  from processExportDeclaration_unresolved [OF s, where project = loopProject and pathResolve = resolveInP
      and sourceFile = "exportsOnlyFile ''/p/a.ts'' []" and modulePath = "''a.ts''" and registry = "[]"
      and importMap = Map.empty and ns = "\<lparr>getName = ''X'', getAliasNode = None\<rparr>"] d
  have "resolveModulePath loopProject resolveInP (exportsOnlyFile ''/p/a.ts'' []) ''lodash'' = None"
    and "processExportDeclaration loopProject resolveInP (starDeclaration ''lodash'') ''a.ts'' []
     (exportsOnlyFile ''/p/a.ts'' []) Map.empty = []"
    by (simp_all add: starDeclaration_def)
  with s e processExportDeclaration_unresolved [OF n, where project = loopProject
      and pathResolve = resolveInP and sourceFile = "exportsOnlyFile ''/p/a.ts'' []"
      and modulePath = "''a.ts''" and registry = "[]" and importMap = Map.empty
      and ns = "\<lparr>getName = ''X'', getAliasNode = None\<rparr>"]
  show ?thesis by simp
qed

text \<open>
  C4 as stated fails for named re-exports: \<^verbatim>\<open>a.ts: export { X } from 'lodash'\<close> leaves the
  key \<open>a.ts::X\<close> in the built registry.
\<close>

theorem processExportDeclaration_external_counterexample:
  "map_of (buildExportRegistry loopProject resolveInP noNewFiles dropBase
             [(''/p/a.ts'', exportsOnlyFile ''/p/a.ts'' [namedReExportDeclaration ''X'' ''lodash''])])
     ''a.ts::X'' = Some (reExportEntry ''a.ts'' ''X'' ''lodash'' (Some ''X''))"
  by (simp add: builder_defs loopProject_def example_defs)


end
